theory Spec2Isabelle
  imports Complex_Main "HOL-Library.Word"
begin

section \<open>The ChatterBox TTS API server (tts-server/server.py)\<close>

text \<open>
  A shallow embedding of \<^verbatim>\<open>src/tts-server/server.py\<close>. Handlers are functions from the
  process state to a result and the new state. Every \<^verbatim>\<open>raise\<close> of the source is an
  \<open>Inl\<close> value. Floating-point numbers are the real numbers they denote, and every
  floating-point operation of the source is the exact operation followed by rounding to
  the nearest double (\<open>float64\<close> below). Infinities and NaN are not modelled.
  Console output (\<^verbatim>\<open>print\<close>) is not modelled.
\<close>

subsection \<open>Exceptions\<close>

datatype exn =
    HTTPException (status_code: nat) (detail: string)
  | ValueError string
  | ZeroDivisionError string
  | RuntimeError string

definition digit_char :: "nat \<Rightarrow> char" where
  "digit_char d = ''0123456789'' ! (d mod 10)"

fun str_nat :: "nat \<Rightarrow> string" where
  "str_nat n = (if n < 10 then [digit_char n] else str_nat (n div 10) @ [digit_char (n mod 10)])"

declare str_nat.simps [simp del]

text \<open>\<^verbatim>\<open>str(e)\<close>: the message of a built-in exception; Starlette renders an
  \<^verbatim>\<open>HTTPException\<close> as \<^verbatim>\<open>"{status_code}: {detail}"\<close>.\<close>

fun str_exn :: "exn \<Rightarrow> string" where
  "str_exn (HTTPException c d) = str_nat c @ '': '' @ d"
| "str_exn (ValueError m) = m"
| "str_exn (ZeroDivisionError m) = m"
| "str_exn (RuntimeError m) = m"

subsection \<open>Paths (pathlib on POSIX) and the file system\<close>

fun split_on :: "char \<Rightarrow> string \<Rightarrow> string list" where
  "split_on c [] = [[]]"
| "split_on c (x # xs) =
     (if x = c then [] # split_on c xs
      else (case split_on c xs of [] \<Rightarrow> [[x]] | w # ws \<Rightarrow> (x # w) # ws))"

datatype path = PosixPath (is_absolute: bool) (parts: "string list")

text \<open>\<^verbatim>\<open>Path(s)\<close>: a leading slash makes the path absolute; empty and \<^verbatim>\<open>.\<close> components are
  dropped, \<^verbatim>\<open>..\<close> components are kept.\<close>

definition Path :: "string \<Rightarrow> path" where
  "Path s = PosixPath (case s of [] \<Rightarrow> False | c # _ \<Rightarrow> c = CHR ''/'')
                      (filter (\<lambda>p. p \<noteq> [] \<and> p \<noteq> ''.'') (split_on CHR ''/'' s))"

text \<open>\<^verbatim>\<open>p / s\<close>: an absolute right operand replaces the left one.\<close>

definition truediv :: "path \<Rightarrow> string \<Rightarrow> path" where
  "truediv p s =
     (let q = Path s in
      if is_absolute q then q else PosixPath (is_absolute p) (parts p @ parts q))"

fun join_slash :: "string list \<Rightarrow> string" where
  "join_slash [] = []"
| "join_slash [p] = p"
| "join_slash (p # ps) = p @ ''/'' @ join_slash ps"

definition str_path :: "path \<Rightarrow> string" where
  "str_path p =
     (if is_absolute p then ''/'' @ join_slash (parts p)
      else if parts p = [] then ''.'' else join_slash (parts p))"

fun rfind :: "char \<Rightarrow> string \<Rightarrow> nat option" where
  "rfind c [] = None"
| "rfind c (x # xs) =
     (case rfind c xs of Some i \<Rightarrow> Some (Suc i)
      | None \<Rightarrow> if x = c then Some 0 else None)"

text \<open>\<^verbatim>\<open>PurePath.suffix\<close> and \<^verbatim>\<open>PurePath.stem\<close> of a final component.\<close>

definition name_suffix :: "string \<Rightarrow> string" where
  "name_suffix name =
     (case rfind CHR ''.'' name of None \<Rightarrow> []
      | Some i \<Rightarrow> if 0 < i \<and> i < length name - 1 then drop i name else [])"

definition name_stem :: "string \<Rightarrow> string" where
  "name_stem name =
     (case rfind CHR ''.'' name of None \<Rightarrow> name
      | Some i \<Rightarrow> if 0 < i \<and> i < length name - 1 then take i name else name)"

definition suffix :: "path \<Rightarrow> string" where
  "suffix p = (if parts p = [] then [] else name_suffix (last (parts p)))"

definition endswith :: "string \<Rightarrow> string \<Rightarrow> bool" where
  "endswith s e = (length e \<le> length s \<and> drop (length s - length e) s = e)"

text \<open>
  What the operating system makes of a path: a relative path starts at the working
  directory, \<^verbatim>\<open>..\<close> steps to the parent (the root is its own parent). Symbolic links are
  not modelled, and every directory on the way is taken to exist. The files that
  \<^verbatim>\<open>tempfile.NamedTemporaryFile\<close> creates have fresh names; they are the locations
  \<open>Temp n sfx\<close>, numbered by a counter in the state.
\<close>

fun walk :: "string list \<Rightarrow> string list \<Rightarrow> string list" where
  "walk cur [] = cur"
| "walk cur (p # ps) = (if p = ''..'' then walk (butlast cur) ps else walk (cur @ [p]) ps)"

datatype loc = Named "string list" | Temp nat string

type_synonym bytes = "8 word list"

type_synonym filesystem = "(loc \<times> bytes) list"

fun fs_write :: "filesystem \<Rightarrow> loc \<Rightarrow> bytes \<Rightarrow> filesystem" where
  "fs_write [] l b = [(l, b)]"
| "fs_write ((k, v) # fs) l b = (if k = l then (k, b) # fs else (k, v) # fs_write fs l b)"

definition fs_unlink :: "filesystem \<Rightarrow> loc \<Rightarrow> filesystem" where
  "fs_unlink fs l = filter (\<lambda>kv. fst kv \<noteq> l) fs"

definition fs_exists :: "filesystem \<Rightarrow> loc \<Rightarrow> bool" where
  "fs_exists fs l = (map_of fs l \<noteq> None)"

subsection \<open>Double-precision arithmetic\<close>

text \<open>\<open>log2floor n\<close> is \<open>\<lfloor>log\<^sub>2 n\<rfloor>\<close> for positive \<open>n\<close>, and \<open>exponent x\<close> is \<open>\<lfloor>log\<^sub>2 x\<rfloor>\<close> for
  positive \<open>x\<close>.\<close>

function log2floor :: "int \<Rightarrow> int" where
  "log2floor n = (if n < 2 then 0 else 1 + log2floor (n div 2))"
  by pat_completeness auto
termination
  by (relation "measure nat") auto

declare log2floor.simps [simp del]

definition pow2 :: "int \<Rightarrow> real" where
  "pow2 e = (if 0 \<le> e then 2 ^ nat e else 1 / 2 ^ nat (- e))"

definition exponent :: "real \<Rightarrow> int" where
  "exponent x =
     (if 1 \<le> x then log2floor \<lfloor>x\<rfloor>
      else let k = log2floor \<lfloor>1 / x\<rfloor>
           in if 1 / x = pow2 k then - k else - k - 1)"

definition round_half_even :: "real \<Rightarrow> int" where
  "round_half_even x =
     (let f = \<lfloor>x\<rfloor>; d = x - of_int f
      in if d < 1 / 2 then f else if 1 / 2 < d then f + 1
         else if even f then f else f + 1)"

text \<open>
  The double nearest to a real number, ties to the even significand: 53 significant
  bits, and no bit below \<open>pow2 (- 1074)\<close> (gradual underflow). There is no largest
  double here: a result beyond the range of IEEE doubles is not turned into an infinity.
\<close>

definition float64 :: "real \<Rightarrow> real" where
  "float64 x =
     (if x = 0 then 0
      else
        let a = \<bar>x\<bar>;
            e = max (exponent a - 52) (- 1074);
            m = round_half_even (a / pow2 e)
        in sgn x * of_int m * pow2 e)"

subsection \<open>Audio arrays\<close>

text \<open>What \<^verbatim>\<open>soundfile.read\<close> returns: a one-dimensional array for a mono file, an array of
  frames (one row of channel values per time index) otherwise.\<close>

datatype ndarray = Mono "real list" | Multi "real list list"

fun len :: "ndarray \<Rightarrow> nat" where
  "len (Mono xs) = length xs"
| "len (Multi frames) = length frames"

text \<open>\<^verbatim>\<open>np.mean(a, axis=1)\<close>: each row is summed in double precision, from zero and in
  order (rows of fewer than eight values), and the sum is divided by the number of
  channels.\<close>

definition np_mean_axis1 :: "real list list \<Rightarrow> real list" where
  "np_mean_axis1 frames =
     map (\<lambda>row. float64 (fold (\<lambda>x acc. float64 (acc + x)) row 0 / real (length row))) frames"

text \<open>\<^verbatim>\<open>np.max\<close> raises on an array of size zero.\<close>

fun np_max :: "real list \<Rightarrow> exn + real" where
  "np_max [] =
     Inl (ValueError ''zero-size array to reduction operation maximum which has no identity'')"
| "np_max (x # xs) = Inr (fold max xs x)"

subsection \<open>The environment: module constants and the libraries\<close>

datatype model = ChatterboxTTS (device: string) (sr: nat)

type_synonym tensor = "real list"

record env =
  CHATTERBOX_AVAILABLE :: bool
  SCIPY_AVAILABLE :: bool
  cwd :: "string list"
  from_pretrained :: "string \<Rightarrow> exn + model"
  model_generate :: "model \<Rightarrow> filesystem \<Rightarrow> string \<Rightarrow> string option \<Rightarrow> real \<Rightarrow> real \<Rightarrow> exn + tensor"
  ta_save :: "tensor \<Rightarrow> nat \<Rightarrow> exn + bytes"
  sf_read :: "bytes \<Rightarrow> exn + (ndarray \<times> nat)"
  sf_write :: "real list \<Rightarrow> nat \<Rightarrow> bytes"
  signal_resample :: "real list \<Rightarrow> nat \<Rightarrow> real list"

definition VOICES_DIR :: path where
  "VOICES_DIR = Path ''./voices''"

definition locate :: "env \<Rightarrow> path \<Rightarrow> loc" where
  "locate E p = Named (walk (if is_absolute p then [] else cwd E) (parts p))"

definition voices_dir_loc :: "env \<Rightarrow> string list" where
  "voices_dir_loc E = cwd E @ [''voices'']"

text \<open>A location lies in the voices directory when it is strictly below it.\<close>

fun inside_voices :: "env \<Rightarrow> loc \<Rightarrow> bool" where
  "inside_voices E (Named p) =
     (length (voices_dir_loc E) < length p \<and> take (length (voices_dir_loc E)) p = voices_dir_loc E)"
| "inside_voices E (Temp n sfx) = False"

subsection \<open>convert_to_voice_format\<close>

definition peak_normalize :: "real list \<Rightarrow> exn + real list" where
  "peak_normalize audio_data =
     (case np_max (map abs audio_data) of
        Inl e \<Rightarrow> Inl e
      | Inr peak \<Rightarrow>
          Inr (if peak > 0
               then map (\<lambda>x. float64 (x * float64 (float64 0.85 / peak))) audio_data
               else audio_data))"

definition convert_to_voice_format :: "env \<Rightarrow> ndarray \<Rightarrow> nat \<Rightarrow> nat \<Rightarrow> exn + real list" where
  "convert_to_voice_format E audio_data original_sr target_sample_rate =
     (let mono = (case audio_data of Multi frames \<Rightarrow> np_mean_axis1 frames | Mono xs \<Rightarrow> xs)
      in if original_sr \<noteq> target_sample_rate \<and> SCIPY_AVAILABLE E then
           (if original_sr = 0 then Inl (ZeroDivisionError ''division by zero'')
            else
              let ratio = float64 (real target_sample_rate / real original_sr);
                  num_samples = nat \<lfloor>float64 (float64 (real (length mono)) * ratio)\<rfloor>
              in peak_normalize (signal_resample E mono num_samples))
         else peak_normalize mono)"

subsection \<open>Process state\<close>

datatype event =
    LoadAttempt string
  | UploadRead
  | EngineGenerate string "string option"

record state =
  tts_model :: "model option"
  files :: filesystem
  tmp_count :: nat
  events :: "event list"

definition NamedTemporaryFile :: "state \<Rightarrow> string \<Rightarrow> loc \<times> state" where
  "NamedTemporaryFile s sfx =
     (let l = Temp (tmp_count s) sfx
      in (l, s\<lparr>tmp_count := Suc (tmp_count s), files := fs_write (files s) l []\<rparr>))"

subsection \<open>startup_event\<close>

definition startup_event :: "env \<Rightarrow> state \<Rightarrow> state" where
  "startup_event E s =
     (if \<not> CHATTERBOX_AVAILABLE E then s
      else
        let s1 = s\<lparr>events := events s @ [LoadAttempt ''cuda'']\<rparr>
        in case from_pretrained E ''cuda'' of
             Inr m \<Rightarrow> s1\<lparr>tts_model := Some m\<rparr>
           | Inl e \<Rightarrow>
               let s2 = s1\<lparr>events := events s1 @ [LoadAttempt ''cpu'']\<rparr>
               in (case from_pretrained E ''cpu'' of
                     Inr m \<Rightarrow> s2\<lparr>tts_model := Some m\<rparr>
                   | Inl e2 \<Rightarrow> s2))"

subsection \<open>Responses\<close>

datatype response =
    RootStatus bool bool
  | UploadResult string string real nat
  | FileResponse loc
  | VoicesList "(string \<times> real \<times> nat) list"
  | DeleteResult string

type_synonym result = "exn + response"

text \<open>\<^verbatim>\<open>round(x, 2)\<close>: to two decimals, ties to the even neighbour.\<close>

definition round2 :: "real \<Rightarrow> real" where
  "round2 x = float64 (of_int (round_half_even (x * 100)) / 100)"

definition root :: "env \<Rightarrow> state \<Rightarrow> result \<times> state" where
  "root E s = (Inr (RootStatus (tts_model s \<noteq> None) (CHATTERBOX_AVAILABLE E)), s)"

subsection \<open>upload_voice\<close>

definition upload_body :: "env \<Rightarrow> state \<Rightarrow> loc \<Rightarrow> bytes \<Rightarrow> string \<Rightarrow> result \<times> state" where
  "upload_body E s temp_input file_content voice_name =
     (let s1 = s\<lparr>events := events s @ [UploadRead]\<rparr>;
          s2 = s1\<lparr>files := fs_write (files s1) temp_input file_content\<rparr>
      in case map_of (files s2) temp_input of
           None \<Rightarrow> (Inl (RuntimeError ''Error opening file''), s2)
         | Some b \<Rightarrow>
            (case sf_read E b of
               Inl e \<Rightarrow> (Inl e, s2)
             | Inr (audio_data, original_sr) \<Rightarrow>
                (case convert_to_voice_format E audio_data original_sr 24000 of
                   Inl e \<Rightarrow> (Inl e, s2)
                 | Inr converted_audio \<Rightarrow>
                     let output_path = truediv VOICES_DIR (voice_name @ ''.wav'');
                         s3 = s2\<lparr>files := fs_write (files s2) (locate E output_path)
                                               (sf_write E converted_audio 24000)\<rparr>;
                         duration = float64 (real (length converted_audio) / 24000)
                     in (Inr (UploadResult voice_name (str_path output_path)
                                (round2 duration) 24000), s3))))"

definition upload_voice :: "env \<Rightarrow> state \<Rightarrow> string \<Rightarrow> bytes \<Rightarrow> string \<Rightarrow> result \<times> state" where
  "upload_voice E s filename file_content voice_name =
     (if tts_model s = None then (Inl (HTTPException 503 ''TTS model not loaded''), s)
      else
        let (temp_input, s0) = NamedTemporaryFile s (suffix (Path filename));
            (r, s1) = upload_body E s0 temp_input file_content voice_name;
            r' = (case r of
                    Inl e \<Rightarrow> Inl (HTTPException 500 (''Failed to process voice: '' @ str_exn e))
                  | Inr v \<Rightarrow> Inr v);
            s2 = (if fs_exists (files s1) temp_input
                  then s1\<lparr>files := fs_unlink (files s1) temp_input\<rparr> else s1)
        in (r', s2))"

subsection \<open>generate_tts\<close>

definition quote :: string where
  "quote = [CHR 0x27]"

definition generate_body ::
  "env \<Rightarrow> state \<Rightarrow> model \<Rightarrow> string \<Rightarrow> string option \<Rightarrow> real \<Rightarrow> real \<Rightarrow> result \<times> state" where
  "generate_body E s m text voice_name exaggeration cfg_weight =
     (let lookup =
            (case voice_name of
               None \<Rightarrow> Inr None
             | Some v \<Rightarrow>
                 if v = [] then Inr None
                 else
                   let voice_path = truediv VOICES_DIR (v @ ''.wav'')
                   in if \<not> fs_exists (files s) (locate E voice_path)
                      then Inl (HTTPException 404 (''Voice '' @ quote @ v @ quote @ '' not found''))
                      else Inr (Some (str_path voice_path)))
      in case lookup of
           Inl e \<Rightarrow> (Inl e, s)
         | Inr reference_voice \<Rightarrow>
             let s1 = s\<lparr>events := events s @ [EngineGenerate text reference_voice]\<rparr>
             in (case model_generate E m (files s1) text reference_voice exaggeration cfg_weight of
                   Inl e \<Rightarrow> (Inl e, s1)
                 | Inr wav \<Rightarrow>
                     let (output_file, s2) = NamedTemporaryFile s1 ''.wav''
                     in (case ta_save E wav (sr m) of
                           Inl e \<Rightarrow> (Inl e, s2)
                         | Inr b \<Rightarrow>
                             (Inr (FileResponse output_file),
                              s2\<lparr>files := fs_write (files s2) output_file b\<rparr>))))"

definition generate_tts ::
  "env \<Rightarrow> state \<Rightarrow> string \<Rightarrow> string option \<Rightarrow> real \<Rightarrow> real \<Rightarrow> result \<times> state" where
  "generate_tts E s text voice_name exaggeration cfg_weight =
     (case tts_model s of
        None \<Rightarrow> (Inl (HTTPException 503 ''TTS model not loaded''), s)
      | Some m \<Rightarrow>
          if text = [] then (Inl (HTTPException 400 ''Text is required''), s)
          else
            let (r, s1) = generate_body E s m text voice_name exaggeration cfg_weight
            in (case r of
                  Inl e \<Rightarrow> (Inl (HTTPException 500 (''Failed to generate TTS: '' @ str_exn e)), s1)
                | Inr v \<Rightarrow> (Inr v, s1)))"

subsection \<open>list_voices and delete_voice\<close>

fun glob_wav :: "string list \<Rightarrow> filesystem \<Rightarrow> (string \<times> bytes) list" where
  "glob_wav d [] = []"
| "glob_wav d ((Named p, b) # fs) =
     (if p \<noteq> [] \<and> butlast p = d \<and> endswith (last p) ''.wav''
      then (last p, b) # glob_wav d fs else glob_wav d fs)"
| "glob_wav d ((Temp n sfx, b) # fs) = glob_wav d fs"

fun voice_entries :: "env \<Rightarrow> (string \<times> bytes) list \<Rightarrow> (string \<times> real \<times> nat) list" where
  "voice_entries E [] = []"
| "voice_entries E ((name, b) # rest) =
     (case sf_read E b of
        Inl e \<Rightarrow> voice_entries E rest
      | Inr (audio_data, rate) \<Rightarrow>
          if rate = 0 then voice_entries E rest
          else (name_stem name, round2 (float64 (real (len audio_data) / real rate)), rate)
               # voice_entries E rest)"

definition list_voices :: "env \<Rightarrow> state \<Rightarrow> result \<times> state" where
  "list_voices E s =
     (Inr (VoicesList (voice_entries E (glob_wav (walk (cwd E) (parts VOICES_DIR)) (files s)))), s)"

definition delete_voice :: "env \<Rightarrow> state \<Rightarrow> string \<Rightarrow> result \<times> state" where
  "delete_voice E s voice_name =
     (let voice_path = truediv VOICES_DIR (voice_name @ ''.wav'')
      in if \<not> fs_exists (files s) (locate E voice_path)
         then (Inl (HTTPException 404 (''Voice '' @ quote @ voice_name @ quote @ '' not found'')), s)
         else (Inr (DeleteResult (''Voice '' @ quote @ voice_name @ quote @ '' deleted'')),
               s\<lparr>files := fs_unlink (files s) (locate E voice_path)\<rparr>))"

subsection \<open>Serving a sequence of requests\<close>

datatype request =
    GetRoot
  | PostUploadVoice string bytes string
  | PostGenerate string "string option" real real
  | GetVoices
  | DeleteVoice string

fun handle :: "env \<Rightarrow> state \<Rightarrow> request \<Rightarrow> result \<times> state" where
  "handle E s GetRoot = root E s"
| "handle E s (PostUploadVoice filename file_content voice_name) =
     upload_voice E s filename file_content voice_name"
| "handle E s (PostGenerate text voice_name exaggeration cfg_weight) =
     generate_tts E s text voice_name exaggeration cfg_weight"
| "handle E s GetVoices = list_voices E s"
| "handle E s (DeleteVoice voice_name) = delete_voice E s voice_name"

fun serve :: "env \<Rightarrow> state \<Rightarrow> request list \<Rightarrow> result list \<times> state" where
  "serve E s [] = ([], s)"
| "serve E s (r # rs) =
     (let (x, s1) = handle E s r; (xs, s2) = serve E s1 rs in (x # xs, s2))"

text \<open>The process before \<^verbatim>\<open>startup_event\<close>: \<^verbatim>\<open>tts_model = None\<close>.\<close>

definition initial_state :: "filesystem \<Rightarrow> state" where
  "initial_state fs = \<lparr>tts_model = None, files = fs, tmp_count = 0, events = []\<rparr>"

subsection \<open>Concrete environments and states for evaluation\<close>

text \<open>A stand-in for \<^verbatim>\<open>scipy.signal.resample\<close> that meets its length contract (it picks
  the nearest earlier sample), used only to evaluate the handlers on concrete inputs.\<close>

definition nearest :: "real list \<Rightarrow> nat \<Rightarrow> real list" where
  "nearest xs n =
     (if xs = [] then replicate n 0 else map (\<lambda>i. xs ! (i * length xs div n)) [0..<n])"

text \<open>Everything is installed and every library call succeeds; the server runs in
  \<^verbatim>\<open>/srv/app\<close>.\<close>

definition env0 :: env where
  "env0 = \<lparr>CHATTERBOX_AVAILABLE = True, SCIPY_AVAILABLE = True, cwd = [''srv'', ''app''],
     from_pretrained = (\<lambda>d. Inr (ChatterboxTTS d 24000)),
     model_generate = (\<lambda>m fs text ref ex cfg. Inr [0, 1 / 4, 0]),
     ta_save = (\<lambda>wav rate. Inr [82, 73, 70, 70]),
     sf_read = (\<lambda>b. if b = [] then Inl (RuntimeError ''Format not recognised'')
                     else Inr (Mono [1 / 2, - 1 / 4], 24000)),
     sf_write = (\<lambda>xs rate. [82, 73, 70, 70]),
     signal_resample = nearest\<rparr>"


text \<open>The \<^verbatim>\<open>chatterbox\<close> import failed.\<close>

definition env_no_chatterbox :: env where
  "env_no_chatterbox = env0\<lparr>CHATTERBOX_AVAILABLE := False\<rparr>"

text \<open>The model loads on neither device.\<close>

definition env_no_device :: env where
  "env_no_device = env0\<lparr>from_pretrained := (\<lambda>d. Inl (RuntimeError ''no device''))\<rparr>"

text \<open>The model loads on the CPU only.\<close>

definition env_cpu_only :: env where
  "env_cpu_only =
     env0\<lparr>from_pretrained :=
            (\<lambda>d. if d = ''cuda'' then Inl (RuntimeError ''CUDA not available'')
                 else Inr (ChatterboxTTS d 24000))\<rparr>"

text \<open>The state after a successful start with an empty voices directory.\<close>

definition ready_state :: state where
  "ready_state =
     \<lparr>tts_model = Some (ChatterboxTTS ''cuda'' 24000), files = [], tmp_count = 0,
      events = [LoadAttempt ''cuda'']\<rparr>"

subsection \<open>Observations on a state\<close>

text \<open>The calls of \<^verbatim>\<open>tts_model.generate\<close> made so far.\<close>

definition engine_calls :: "state \<Rightarrow> event list" where
  "engine_calls s =
     filter (\<lambda>e. case e of EngineGenerate t r \<Rightarrow> True | _ \<Rightarrow> False) (events s)"

text \<open>The calls of \<^verbatim>\<open>ChatterboxTTS.from_pretrained\<close> made so far, by device.\<close>

definition load_attempts :: "state \<Rightarrow> string list" where
  "load_attempts s =
     concat (map (\<lambda>e. case e of LoadAttempt d \<Rightarrow> [d] | _ \<Rightarrow> []) (events s))"

text \<open>The length of a returned array, \<open>None\<close> for a raised exception.\<close>

definition result_length :: "exn + real list \<Rightarrow> nat option" where
  "result_length r = (case r of Inl e \<Rightarrow> None | Inr out \<Rightarrow> Some (length out))"

text \<open>Temporary files are numbered below the counter: the next name is fresh.\<close>

definition tmp_fresh :: "state \<Rightarrow> bool" where
  "tmp_fresh s =
     list_all (\<lambda>kv. case fst kv of Temp n sfx \<Rightarrow> n < tmp_count s | Named p \<Rightarrow> True) (files s)"

section \<open>Verified properties\<close>

subsection \<open>File system facts\<close>

lemma map_of_fs_write: "map_of (fs_write fs l b) = (map_of fs)(l \<mapsto> b)"
  by (induction fs l b rule: fs_write.induct) auto

lemma map_of_fs_unlink: "map_of (fs_unlink fs l) = (map_of fs)(l := None)"
  unfolding fs_unlink_def by (induction fs) auto

lemma fs_exists_write: "fs_exists (fs_write fs l b) k = (k = l \<or> fs_exists fs k)"
  by (simp add: fs_exists_def map_of_fs_write)

lemma fs_exists_unlink: "fs_exists (fs_unlink fs l) k = (k \<noteq> l \<and> fs_exists fs k)"
  by (simp add: fs_exists_def map_of_fs_unlink)

lemma ready_state_startup: "startup_event env0 (initial_state []) = ready_state"
  by (simp add: startup_event_def env0_def initial_state_def ready_state_def)

subsection \<open>Requests rejected before any work is done\<close>

text \<open>
  C10. An upload-voice request made while the model is not loaded fails with status 503,
  "TTS model not loaded", and leaves the whole state as it was: the uploaded bytes are
  not read (no \<open>UploadRead\<close> event), no temporary file is created and no file is written.
\<close>

theorem upload_voice_model_not_loaded:
  "tts_model s = None \<Longrightarrow>
   upload_voice E s filename file_content voice_name =
     (Inl (HTTPException 503 ''TTS model not loaded''), s)"
  by (simp add: upload_voice_def)

theorem upload_voice_model_not_loaded_witness:
  "tts_model (startup_event env_no_device (initial_state [])) = None \<and>
   upload_voice env_no_device (startup_event env_no_device (initial_state []))
       ''sample.wav'' [82, 73] ''narrator'' =
     (Inl (HTTPException 503 ''TTS model not loaded''),
      startup_event env_no_device (initial_state []))"
proof -
  have h: "tts_model (startup_event env_no_device (initial_state [])) = None"
    by (simp add: startup_event_def env_no_device_def env0_def initial_state_def)
  show ?thesis
    using upload_voice_model_not_loaded
            [OF h, of env_no_device "''sample.wav''" "[82, 73]" "''narrator''"] h
    by simp
qed

text \<open>
  C9. A generate request with empty text made while the model is loaded fails with
  status 400, "Text is required", and leaves the whole state as it was; in particular
  the engine is not called.
\<close>

theorem generate_tts_empty_text:
  "tts_model s = Some m \<Longrightarrow>
   generate_tts E s [] voice_name exaggeration cfg_weight =
     (Inl (HTTPException 400 ''Text is required''), s) \<and>
   engine_calls (snd (generate_tts E s [] voice_name exaggeration cfg_weight)) = engine_calls s"
  by (simp add: generate_tts_def)

theorem generate_tts_empty_text_witness:
  "tts_model ready_state = Some (ChatterboxTTS ''cuda'' 24000) \<and>
   generate_tts env0 ready_state [] (Some ''narrator'') 0.2 0.8 =
     (Inl (HTTPException 400 ''Text is required''), ready_state) \<and>
   engine_calls (snd (generate_tts env0 ready_state [] (Some ''narrator'') 0.2 0.8)) = []"
proof -
  have h: "tts_model ready_state = Some (ChatterboxTTS ''cuda'' 24000)"
    by (simp add: ready_state_def)
  have e: "engine_calls ready_state = []"
    by (simp add: engine_calls_def ready_state_def)
  show ?thesis
    using generate_tts_empty_text [OF h, of env0 "Some ''narrator''" "0.2" "0.8"] h e
    by simp
qed

subsection \<open>convert_to_voice_format\<close>

lemma np_max_nonempty:
  assumes "xs \<noteq> []"
  shows "np_max xs = Inr (Max (set xs))"
proof (cases xs)
  case Nil
  then show ?thesis using assms by simp
next
  case (Cons a list)
  show ?thesis
    unfolding Cons using Max.set_eq_fold [of a list] by simp
qed

lemma peak_normalize_nonempty:
  "xs \<noteq> [] \<Longrightarrow>
   peak_normalize xs =
     Inr (if 0 < Max (abs ` set xs)
          then map (\<lambda>x. float64 (x * float64 (float64 0.85 / Max (abs ` set xs)))) xs
          else xs)"
  by (simp add: peak_normalize_def np_max_nonempty)

lemma peak_normalize_empty:
  "peak_normalize [] =
     Inl (ValueError ''zero-size array to reduction operation maximum which has no identity'')"
  by (simp add: peak_normalize_def)

lemma result_length_peak_normalize:
  "xs \<noteq> [] \<Longrightarrow> result_length (peak_normalize xs) = Some (length xs)"
  by (simp add: peak_normalize_nonempty result_length_def)

lemma length_np_mean_axis1: "length (np_mean_axis1 frames) = length frames"
  by (simp add: np_mean_axis1_def)

lemma length_nearest: "length (nearest xs n) = n"
  by (simp add: nearest_def)

text \<open>The double nearest to 0.85, and a product that double precision rounds down.\<close>

lemma float64_085: "float64 0.85 = 7656119366529843 / 9007199254740992"
  by code_simp

lemma floor_count_11_17600: "\<lfloor>float64 (float64 11 * float64 (24000 / 17600))\<rfloor> = 14"
  by code_simp

lemma floor_count_5_32000: "\<lfloor>float64 (float64 5 * float64 (24000 / 32000))\<rfloor> = 3"
  by code_simp

lemma floor_count_48000_48000:
  "\<lfloor>float64 (float64 48000 * float64 (24000 / 48000))\<rfloor> = 24000"
  by code_simp

lemma real_rates:
  "real 24000 = 24000" "real 32000 = 32000" "real 48000 = 48000" "real 17600 = 17600"
  by simp_all

text \<open>Eleven samples at 17600 Hz: the exact product is 15, the double-precision product
  is just below it.\<close>

lemma num_samples_rounding:
  "nat \<lfloor>float64 (float64 (real 11) * float64 (real 24000 / real 17600))\<rfloor> = 14"
proof -
  have r: "real 11 = 11" by simp
  show ?thesis unfolding r real_rates floor_count_11_17600 by simp
qed



text \<open>
  C5. The claim says that a zero-length waveform is returned unscaled. The function
  visibly guards the silent case with \<^verbatim>\<open>if peak > 0\<close>, but takes \<^verbatim>\<open>np.max\<close> of the array
  first, and that raises on a zero-length array: for a zero-length mono waveform already
  at the target rate, \<open>convert_to_voice_format\<close> raises \<^verbatim>\<open>ValueError\<close> and returns nothing.
\<close>

theorem convert_zero_length_raises:
  "convert_to_voice_format E (Mono []) rate rate =
     Inl (ValueError ''zero-size array to reduction operation maximum which has no identity'')"
  by (simp add: convert_to_voice_format_def peak_normalize_def)




lemma convert_resampled:
  assumes "SCIPY_AVAILABLE E" and "original_sr \<noteq> target_sample_rate" and "0 < original_sr"
  shows "convert_to_voice_format E audio_data original_sr target_sample_rate =
           peak_normalize (signal_resample E
              (case audio_data of Multi frames \<Rightarrow> np_mean_axis1 frames | Mono xs \<Rightarrow> xs)
              (nat \<lfloor>float64 (float64 (real (len audio_data)) *
                float64 (real target_sample_rate / real original_sr))\<rfloor>))"
  using assms
  by (cases audio_data) (simp_all add: convert_to_voice_format_def Let_def length_np_mean_axis1)

lemma convert_resampled_length:
  assumes "\<forall>xs n. length (signal_resample E xs n) = n"
    and "SCIPY_AVAILABLE E" and "original_sr \<noteq> target_sample_rate" and "0 < original_sr"
    and "0 < nat \<lfloor>float64 (float64 (real (len audio_data)) *
                float64 (real target_sample_rate / real original_sr))\<rfloor>"
  shows "result_length (convert_to_voice_format E audio_data original_sr target_sample_rate) =
           Some (nat \<lfloor>float64 (float64 (real (len audio_data)) *
                float64 (real target_sample_rate / real original_sr))\<rfloor>)"
proof -
  let ?n = "nat \<lfloor>float64 (float64 (real (len audio_data)) *
                float64 (real target_sample_rate / real original_sr))\<rfloor>"
  let ?m = "case audio_data of Multi frames \<Rightarrow> np_mean_axis1 frames | Mono xs \<Rightarrow> xs"
  have l: "length (signal_resample E ?m ?n) = ?n" using assms(1) by blast
  then have "signal_resample E ?m ?n \<noteq> []" using assms(5) by auto
  then show ?thesis
    using l by (simp add: convert_resampled [OF assms(2,3,4)] result_length_peak_normalize)
qed

text \<open>
  C6, as stated, fails: the sample count is truncated by \<^verbatim>\<open>int\<close>, not rounded. Five samples
  at 32000 Hz give \<open>5 * 0.75 = 3.75\<close>, so three samples come out where rounding gives four.
\<close>

theorem convert_resample_count_counterexample:
  "result_length (convert_to_voice_format env0 (Mono [1, 2, 3, 4, 5]) 32000 24000) = Some 3 \<and>
   round (5 * 24000 / 32000 :: real) = 4"
proof -
  have c: "\<forall>xs n. length (signal_resample env0 xs n) = n"
    by (simp add: env0_def length_nearest)
  have s: "SCIPY_AVAILABLE env0" by (simp add: env0_def)
  have r: "real (len (Mono [1, 2, 3, 4, 5])) = 5" by simp
  have n: "nat \<lfloor>float64 (float64 (real (len (Mono [1, 2, 3, 4, 5]))) *
                float64 (real 24000 / real 32000))\<rfloor> = 3"
    unfolding r real_rates floor_count_5_32000 by simp
  have "result_length (convert_to_voice_format env0 (Mono [1, 2, 3, 4, 5]) 32000 24000) = Some 3"
    using convert_resampled_length [OF c s, of 32000 24000 "Mono [1, 2, 3, 4, 5]"]
    unfolding n by simp
  moreover have "round (5 * 24000 / 32000 :: real) = 4"
    by (simp add: round_def)
  ultimately show ?thesis by simp
qed

text \<open>
  C6, amended. For a resampler that returns as many samples as it is asked for, an input
  whose sample rate differs from the target rate, with SciPy available, comes out with
  exactly \<^verbatim>\<open>int(len(samples) * (target_rate / input_rate))\<close> samples, whenever that count is
  positive: the quotient and the product are taken in double precision, and the product
  is truncated, not rounded. A 48000-sample waveform at 48000 Hz comes out with 24000
  samples at 24000 Hz (the witness).
\<close>

theorem convert_resample_count:
  assumes "\<forall>xs n. length (signal_resample E xs n) = n"
    and "SCIPY_AVAILABLE E" and "original_sr \<noteq> target_sample_rate" and "0 < original_sr"
    and "0 < nat \<lfloor>float64 (float64 (real (len audio_data)) *
                float64 (real target_sample_rate / real original_sr))\<rfloor>"
  shows "result_length (convert_to_voice_format E audio_data original_sr target_sample_rate) =
           Some (nat \<lfloor>float64 (float64 (real (len audio_data)) *
                float64 (real target_sample_rate / real original_sr))\<rfloor>)"
  using assms by (rule convert_resampled_length)

theorem convert_resample_count_witness:
  "(\<forall>xs n. length (signal_resample env0 xs n) = n) \<and> SCIPY_AVAILABLE env0 \<and>
   (48000::nat) \<noteq> 24000 \<and> (0::nat) < 48000 \<and>
   len (Mono (replicate 48000 (1 / 2))) = 48000 \<and>
   result_length (convert_to_voice_format env0 (Mono (replicate 48000 (1 / 2))) 48000 24000) =
     Some 24000"
proof -
  have c: "\<forall>xs n. length (signal_resample env0 xs n) = n"
    by (simp add: env0_def length_nearest)
  have s: "SCIPY_AVAILABLE env0" by (simp add: env0_def)
  have k: "len (Mono (replicate 48000 (1 / 2))) = 48000" by simp
  have f: "nat \<lfloor>float64 (float64 (real 48000) * float64 (real 24000 / real 48000))\<rfloor> = 24000"
    unfolding real_rates floor_count_48000_48000 by simp
  have n: "nat \<lfloor>float64 (float64 (real (len (Mono (replicate 48000 (1 / 2))))) *
                float64 (real 24000 / real 48000))\<rfloor> = 24000"
    unfolding k by (rule f)
  have p: "0 < nat \<lfloor>float64 (float64 (real (len (Mono (replicate 48000 (1 / 2))))) *
                float64 (real 24000 / real 48000))\<rfloor>"
    unfolding n by simp
  have "result_length (convert_to_voice_format env0 (Mono (replicate 48000 (1 / 2))) 48000 24000) =
     Some 24000"
    using convert_resample_count [OF c s _ _ p] unfolding n by simp
  then show ?thesis using c s by simp
qed

text \<open>The channel reduction: a multi-channel waveform is converted as the mono waveform
  of its frame means is, and at the target rate a non-empty one keeps its sample
  count.\<close>

lemma convert_multichannel_length:
  assumes "frames \<noteq> []"
  shows "result_length (convert_to_voice_format E (Multi frames) rate rate) =
           Some (length frames)"
proof -
  have "np_mean_axis1 frames \<noteq> []" using assms by (simp add: np_mean_axis1_def)
  then show ?thesis
    by (simp add: convert_to_voice_format_def result_length_peak_normalize
          length_np_mean_axis1)
qed

text \<open>
  C8. The claim says that every multi-channel waveform comes out as the mono waveform of
  its per-index channel averages, with the sample count of the input when it is already
  at the target rate. The function does reduce the channels so, for every input (first
  part below). For a multi-channel waveform of zero frames already at the target rate it
  returns no waveform of the same (zero) sample count: \<^verbatim>\<open>np.max\<close> raises \<^verbatim>\<open>ValueError\<close> on
  the empty array of means, the defect of C5.
\<close>

theorem convert_multichannel:
  "convert_to_voice_format E (Multi frames) original_sr target_sample_rate =
     convert_to_voice_format E
       (Mono (map (\<lambda>row. float64 (fold (\<lambda>x acc. float64 (acc + x)) row 0 /
                                 real (length row))) frames))
       original_sr target_sample_rate \<and>
   convert_to_voice_format E (Multi []) rate rate =
     Inl (ValueError ''zero-size array to reduction operation maximum which has no identity'')"
  by (simp add: convert_to_voice_format_def np_mean_axis1_def peak_normalize_def)

subsection \<open>Voice names and paths\<close>

lemma split_on_no_sep: "c \<notin> set s \<Longrightarrow> split_on c s = [s]"
  by (induction s) auto

text \<open>A voice name without a slash names a file directly in the voices directory.\<close>

lemma voice_file_inside:
  assumes "CHR ''/'' \<notin> set voice_name"
  shows "locate E (truediv VOICES_DIR (voice_name @ ''.wav'')) =
           Named (cwd E @ [''voices'', voice_name @ ''.wav''])"
    and "inside_voices E (locate E (truediv VOICES_DIR (voice_name @ ''.wav'')))"
proof -
  have "CHR ''/'' \<notin> set (voice_name @ ''.wav'')" using assms by simp
  then have s: "split_on CHR ''/'' (voice_name @ ''.wav'') = [voice_name @ ''.wav'']"
    by (rule split_on_no_sep)
  have n1: "voice_name @ ''.wav'' \<noteq> ''.''" and n2: "voice_name @ ''.wav'' \<noteq> ''..''"
    by (cases voice_name; simp)+
  have abs: "\<not> is_absolute (Path (voice_name @ ''.wav''))"
    using assms by (cases voice_name) (auto simp: Path_def)
  have p: "parts (Path (voice_name @ ''.wav'')) = [voice_name @ ''.wav'']"
    using n1 by (simp add: Path_def s)
  have v: "VOICES_DIR = PosixPath False [''voices'']"
    by (simp add: VOICES_DIR_def Path_def)
  show l: "locate E (truediv VOICES_DIR (voice_name @ ''.wav'')) =
           Named (cwd E @ [''voices'', voice_name @ ''.wav''])"
    using abs p n2 by (simp add: locate_def truediv_def Let_def v)
  show "inside_voices E (locate E (truediv VOICES_DIR (voice_name @ ''.wav'')))"
    unfolding l by (simp add: voices_dir_loc_def)
qed

lemma round2_short_duration: "round2 (float64 (1 / 12000)) = 0"
  by code_simp

text \<open>
  C2. The claim says that a voice name such as \<^verbatim>\<open>../../etc\<close> is rejected or sanitized, so
  that nothing outside the voices directory is written. \<open>upload_voice\<close> puts the name
  into the path as it is: with the server running in \<^verbatim>\<open>/srv/app\<close>, uploading a voice named
  \<^verbatim>\<open>../../etc\<close> succeeds, reports the path \<^verbatim>\<open>voices/../../etc.wav\<close> and writes the converted
  audio to \<^verbatim>\<open>/srv/etc.wav\<close>, a file that did not exist before and that lies outside
  \<^verbatim>\<open>/srv/app/voices\<close>.
\<close>

theorem upload_voice_path_traversal:
  "fst (upload_voice env0 ready_state ''sample.wav'' [82, 73] ''../../etc'') =
     Inr (UploadResult ''../../etc'' ''voices/../../etc.wav'' 0 24000) \<and>
   map_of (files (snd (upload_voice env0 ready_state ''sample.wav'' [82, 73] ''../../etc'')))
     (Named [''srv'', ''etc.wav'']) = Some [82, 73, 70, 70] \<and>
   \<not> inside_voices env0 (Named [''srv'', ''etc.wav'']) \<and>
   \<not> fs_exists (files ready_state) (Named [''srv'', ''etc.wav''])"
  by (simp add: upload_voice_def upload_body_def NamedTemporaryFile_def ready_state_def env0_def
      convert_to_voice_format_def peak_normalize_def truediv_def VOICES_DIR_def Path_def
      locate_def fs_exists_def fs_unlink_def str_path_def suffix_def name_suffix_def
      voices_dir_loc_def round2_short_duration Let_def)

subsection \<open>generate_tts with an unknown voice\<close>

lemma str_nat_404: "str_nat 404 = ''404''"
  by (simp add: str_nat.simps digit_char_def)

lemma generate_body_unknown_voice:
  assumes "v \<noteq> []"
    and "\<not> fs_exists (files s) (locate E (truediv VOICES_DIR (v @ ''.wav'')))"
  shows "generate_body E s m text (Some v) exaggeration cfg_weight =
           (Inl (HTTPException 404 (''Voice '' @ quote @ v @ quote @ '' not found'')), s)"
  using assms by (simp add: generate_body_def Let_def)

text \<open>
  C1. The claim says that a generate request with non-empty text and a voice that has no
  stored file fails with status 404. The handler raises that 404 inside its \<^verbatim>\<open>try\<close> block,
  and \<^verbatim>\<open>except Exception\<close> catches it: with the model loaded, the request fails with
  status 500, the 404 text inside its detail, and the state unchanged (the engine is not
  called). \<open>delete_voice\<close> raises its 404 outside the \<^verbatim>\<open>try\<close> block and does answer 404
  (last line of the witness).
\<close>

theorem generate_tts_unknown_voice:
  assumes "tts_model s = Some m" and "text \<noteq> []" and "v \<noteq> []"
    and "\<not> fs_exists (files s) (locate E (truediv VOICES_DIR (v @ ''.wav'')))"
  shows "generate_tts E s text (Some v) exaggeration cfg_weight =
           (Inl (HTTPException 500
                  (''Failed to generate TTS: 404: Voice '' @ quote @ v @ quote @ '' not found'')), s)"
  using assms(1,2)
  by (simp add: generate_tts_def generate_body_unknown_voice [OF assms(3,4)] str_nat_404)

theorem generate_tts_unknown_voice_witness:
  "tts_model ready_state = Some (ChatterboxTTS ''cuda'' 24000) \<and> ''hello'' \<noteq> [] \<and> ''ghost'' \<noteq> [] \<and>
   \<not> fs_exists (files ready_state) (locate env0 (truediv VOICES_DIR (''ghost'' @ ''.wav''))) \<and>
   generate_tts env0 ready_state ''hello'' (Some ''ghost'') 0.2 0.8 =
     (Inl (HTTPException 500
            (''Failed to generate TTS: 404: Voice '' @ quote @ ''ghost'' @ quote @ '' not found'')),
      ready_state) \<and>
   delete_voice env0 ready_state ''ghost'' =
     (Inl (HTTPException 404 (''Voice '' @ quote @ ''ghost'' @ quote @ '' not found'')), ready_state)"
proof -
  have a: "tts_model ready_state = Some (ChatterboxTTS ''cuda'' 24000)"
    by (simp add: ready_state_def)
  have b: "''hello'' \<noteq> []" and c: "''ghost'' \<noteq> []" by simp_all
  have d: "\<not> fs_exists (files ready_state) (locate env0 (truediv VOICES_DIR (''ghost'' @ ''.wav'')))"
    by (simp add: fs_exists_def ready_state_def)
  have e: "delete_voice env0 ready_state ''ghost'' =
     (Inl (HTTPException 404 (''Voice '' @ quote @ ''ghost'' @ quote @ '' not found'')), ready_state)"
    using d by (simp add: delete_voice_def)
  show ?thesis
    using generate_tts_unknown_voice [OF a b c d, of "0.2" "0.8"] a d e by simp
qed

subsection \<open>The engine over the life of the process\<close>

lemma fs_exists_iff: "fs_exists fs l \<longleftrightarrow> l \<in> fst ` set fs"
  by (simp add: fs_exists_def map_of_eq_None_iff)

lemma tmp_fresh_iff:
  "tmp_fresh s \<longleftrightarrow> (\<forall>n sfx. fs_exists (files s) (Temp n sfx) \<longrightarrow> n < tmp_count s)"
  unfolding tmp_fresh_def fs_exists_iff list_all_iff
  by (force split: loc.splits)

text \<open>No handler assigns \<^verbatim>\<open>tts_model\<close> or loads a model.\<close>

lemma handle_tts_model: "tts_model (snd (handle E s r)) = tts_model s"
  by (cases r)
     (auto simp: root_def upload_voice_def upload_body_def generate_tts_def generate_body_def
        list_voices_def delete_voice_def NamedTemporaryFile_def Let_def
        split: prod.splits sum.splits option.splits if_splits)

lemma handle_load_attempts: "load_attempts (snd (handle E s r)) = load_attempts s"
  by (cases r)
     (auto simp: root_def upload_voice_def upload_body_def generate_tts_def generate_body_def
        list_voices_def delete_voice_def NamedTemporaryFile_def Let_def load_attempts_def
        split: prod.splits sum.splits option.splits if_splits)

lemma serve_tts_model: "tts_model (snd (serve E s rs)) = tts_model s"
proof (induction rs arbitrary: s)
  case Nil
  show ?case by simp
next
  case (Cons r rs)
  have "tts_model (snd (serve E (snd (handle E s r)) rs)) = tts_model s"
    by (simp add: Cons.IH handle_tts_model)
  then show ?case by (simp add: split_beta)
qed

lemma serve_load_attempts: "load_attempts (snd (serve E s rs)) = load_attempts s"
proof (induction rs arbitrary: s)
  case Nil
  show ?case by simp
next
  case (Cons r rs)
  have "load_attempts (snd (serve E (snd (handle E s r)) rs)) = load_attempts s"
    by (simp add: Cons.IH handle_load_attempts)
  then show ?case by (simp add: split_beta)
qed

lemma length_serve: "length (fst (serve E s rs)) = length rs"
  by (induction rs arbitrary: s) (simp_all add: split_beta)

lemma serve_generate_not_loaded:
  assumes "tts_model s = None" and "i < length rs"
    and "rs ! i = PostGenerate text voice_name exaggeration cfg_weight"
  shows "fst (serve E s rs) ! i = Inl (HTTPException 503 ''TTS model not loaded'')"
  using assms
proof (induction rs arbitrary: s i)
  case Nil
  then show ?case by simp
next
  case (Cons r rs)
  show ?case
  proof (cases i)
    case 0
    then show ?thesis using Cons.prems by (simp add: split_beta generate_tts_def)
  next
    case (Suc j)
    have "tts_model (snd (handle E s r)) = None"
      using Cons.prems(1) by (simp add: handle_tts_model)
    then have "fst (serve E (snd (handle E s r)) rs) ! j =
        Inl (HTTPException 503 ''TTS model not loaded'')"
      using Cons.prems Suc by (intro Cons.IH) simp_all
    then show ?thesis using Suc by (simp add: split_beta)
  qed
qed

lemma startup_load_attempts:
  "load_attempts (startup_event E s) =
     load_attempts s @
       (if \<not> CHATTERBOX_AVAILABLE E then []
        else if isl (from_pretrained E ''cuda'') then [''cuda'', ''cpu''] else [''cuda''])"
  by (auto simp: startup_event_def load_attempts_def Let_def split: sum.splits)

lemma startup_tts_model:
  "tts_model (startup_event E s) =
     (if \<not> CHATTERBOX_AVAILABLE E then tts_model s
      else case from_pretrained E ''cuda'' of
             Inr m \<Rightarrow> Some m
           | Inl e \<Rightarrow> (case from_pretrained E ''cpu'' of
                        Inr m \<Rightarrow> Some m | Inl e2 \<Rightarrow> tts_model s))"
  by (auto simp: startup_event_def Let_def split: sum.splits)

text \<open>
  C7, as stated, fails: when the \<^verbatim>\<open>chatterbox\<close> import failed, \<open>startup_event\<close> returns at
  its first check and attempts no backend at all, the preferred one included.
\<close>

theorem startup_event_counterexample:
  "load_attempts (startup_event env_no_chatterbox (initial_state [])) = [] \<and>
   tts_model (startup_event env_no_chatterbox (initial_state [])) = None"
  by (simp add: startup_event_def env_no_chatterbox_def env0_def initial_state_def
      load_attempts_def)

text \<open>
  C7, amended. When the synthesis library was imported, \<open>startup_event\<close> attempts the
  preferred backend (\<^verbatim>\<open>cuda\<close>) once, and the fallback backend (\<^verbatim>\<open>cpu\<close>) exactly once and
  only after the preferred attempt failed; when the import failed it attempts neither.
  The model is left not loaded exactly when the import failed or both attempts failed.
  From then on, whatever requests are served, the model stays not loaded, no further
  load is attempted, and every generate request fails with status 503, "TTS model not
  loaded".
\<close>

theorem engine_lifecycle:
  "load_attempts (startup_event E (initial_state fs)) =
     (if \<not> CHATTERBOX_AVAILABLE E then []
      else if isl (from_pretrained E ''cuda'') then [''cuda'', ''cpu''] else [''cuda'']) \<and>
   (tts_model (startup_event E (initial_state fs)) = None \<longleftrightarrow>
      \<not> CHATTERBOX_AVAILABLE E \<or>
      isl (from_pretrained E ''cuda'') \<and> isl (from_pretrained E ''cpu'')) \<and>
   (tts_model (startup_event E (initial_state fs)) = None \<longrightarrow>
      (\<forall>rs.
         tts_model (snd (serve E (startup_event E (initial_state fs)) rs)) = None \<and>
         load_attempts (snd (serve E (startup_event E (initial_state fs)) rs)) =
           load_attempts (startup_event E (initial_state fs)) \<and>
         (\<forall>i < length rs. \<forall>text voice_name exaggeration cfg_weight.
            rs ! i = PostGenerate text voice_name exaggeration cfg_weight \<longrightarrow>
            fst (serve E (startup_event E (initial_state fs)) rs) ! i =
              Inl (HTTPException 503 ''TTS model not loaded''))))"
proof (intro conjI)
  have l0: "load_attempts (initial_state fs) = []"
    by (simp add: load_attempts_def initial_state_def)
  show "load_attempts (startup_event E (initial_state fs)) =
     (if \<not> CHATTERBOX_AVAILABLE E then []
      else if isl (from_pretrained E ''cuda'') then [''cuda'', ''cpu''] else [''cuda''])"
    by (simp add: startup_load_attempts l0)
  have m0: "tts_model (initial_state fs) = None"
    by (simp add: initial_state_def)
  show "tts_model (startup_event E (initial_state fs)) = None \<longleftrightarrow>
      \<not> CHATTERBOX_AVAILABLE E \<or>
      isl (from_pretrained E ''cuda'') \<and> isl (from_pretrained E ''cpu'')"
    by (auto simp: startup_tts_model m0 split: sum.splits)
  show "tts_model (startup_event E (initial_state fs)) = None \<longrightarrow>
      (\<forall>rs.
         tts_model (snd (serve E (startup_event E (initial_state fs)) rs)) = None \<and>
         load_attempts (snd (serve E (startup_event E (initial_state fs)) rs)) =
           load_attempts (startup_event E (initial_state fs)) \<and>
         (\<forall>i < length rs. \<forall>text voice_name exaggeration cfg_weight.
            rs ! i = PostGenerate text voice_name exaggeration cfg_weight \<longrightarrow>
            fst (serve E (startup_event E (initial_state fs)) rs) ! i =
              Inl (HTTPException 503 ''TTS model not loaded'')))"
    by (simp add: serve_tts_model serve_load_attempts serve_generate_not_loaded)
qed

theorem engine_lifecycle_witness:
  "load_attempts (startup_event env_no_device (initial_state [])) = [''cuda'', ''cpu''] \<and>
   tts_model (startup_event env_no_device (initial_state [])) = None \<and>
   (1::nat) < length [GetVoices, PostGenerate ''hello'' None 0.2 0.8] \<and>
   fst (serve env_no_device (startup_event env_no_device (initial_state []))
          [GetVoices, PostGenerate ''hello'' None 0.2 0.8]) ! 1 =
     Inl (HTTPException 503 ''TTS model not loaded'') \<and>
   load_attempts (snd (serve env_no_device (startup_event env_no_device (initial_state []))
          [GetVoices, PostGenerate ''hello'' None 0.2 0.8])) = [''cuda'', ''cpu'']"
proof -
  have a: "CHATTERBOX_AVAILABLE env_no_device"
    and b: "isl (from_pretrained env_no_device ''cuda'')"
    and c: "isl (from_pretrained env_no_device ''cpu'')"
    by (simp_all add: env_no_device_def env0_def)
  note t = engine_lifecycle [of env_no_device "[]"]
  have l: "load_attempts (startup_event env_no_device (initial_state [])) = [''cuda'', ''cpu'']"
    using t a b by simp
  have n: "tts_model (startup_event env_no_device (initial_state [])) = None"
    using t a b c by simp
  have r: "\<forall>rs.
         tts_model (snd (serve env_no_device (startup_event env_no_device (initial_state [])) rs)) = None \<and>
         load_attempts (snd (serve env_no_device (startup_event env_no_device (initial_state [])) rs)) =
           load_attempts (startup_event env_no_device (initial_state [])) \<and>
         (\<forall>i < length rs. \<forall>text voice_name exaggeration cfg_weight.
            rs ! i = PostGenerate text voice_name exaggeration cfg_weight \<longrightarrow>
            fst (serve env_no_device (startup_event env_no_device (initial_state [])) rs) ! i =
              Inl (HTTPException 503 ''TTS model not loaded''))"
    using t n by blast
  have i: "(1::nat) < length [GetVoices, PostGenerate ''hello'' None 0.2 0.8]" by simp
  have g: "[GetVoices, PostGenerate ''hello'' None 0.2 0.8] ! 1 = PostGenerate ''hello'' None 0.2 0.8"
    by simp
  have "fst (serve env_no_device (startup_event env_no_device (initial_state []))
          [GetVoices, PostGenerate ''hello'' None 0.2 0.8]) ! 1 =
     Inl (HTTPException 503 ''TTS model not loaded'')"
    using r i g by blast
  moreover have "load_attempts (snd (serve env_no_device (startup_event env_no_device (initial_state []))
          [GetVoices, PostGenerate ''hello'' None 0.2 0.8])) = [''cuda'', ''cpu'']"
    using r l by metis
  ultimately show ?thesis using l n i by blast
qed

subsection \<open>Temporary files\<close>

text \<open>Handlers keep the numbering of temporary files, and none removes a temporary file
  that existed before the request.\<close>

lemma handle_keeps_temp:
  assumes "tmp_fresh s" and "fs_exists (files s) (Temp n sfx)"
  shows "fs_exists (files (snd (handle E s r))) (Temp n sfx)"
proof -
  have lt: "n < tmp_count s" using assms unfolding tmp_fresh_iff by blast
  show ?thesis
    using assms(2) lt
    by (cases r)
       (auto simp: root_def upload_voice_def upload_body_def generate_tts_def generate_body_def
          list_voices_def delete_voice_def NamedTemporaryFile_def Let_def locate_def
          fs_exists_write fs_exists_unlink
          split: prod.splits sum.splits option.splits if_splits)
qed

lemma handle_tmp_fresh:
  assumes "tmp_fresh s"
  shows "tmp_fresh (snd (handle E s r))"
proof -
  have lt: "\<And>n sfx. fs_exists (files s) (Temp n sfx) \<Longrightarrow> n < tmp_count s"
    using assms unfolding tmp_fresh_iff by blast
  show ?thesis
    unfolding tmp_fresh_iff
    by (cases r)
       (auto simp: root_def upload_voice_def upload_body_def generate_tts_def generate_body_def
          list_voices_def delete_voice_def NamedTemporaryFile_def Let_def locate_def
          fs_exists_write fs_exists_unlink less_Suc_eq
          dest: lt split: prod.splits sum.splits option.splits if_splits)
qed

lemma serve_keeps_temp:
  "tmp_fresh s \<Longrightarrow> fs_exists (files s) (Temp n sfx) \<Longrightarrow>
   fs_exists (files (snd (serve E s rs))) (Temp n sfx)"
proof (induction rs arbitrary: s)
  case Nil
  then show ?case by simp
next
  case (Cons r rs)
  have "fs_exists (files (snd (serve E (snd (handle E s r)) rs))) (Temp n sfx)"
    using Cons.prems by (intro Cons.IH handle_tmp_fresh handle_keeps_temp)
  then show ?case by (simp add: split_beta)
qed

text \<open>\<open>upload_voice\<close> removes the temporary input file it created, on every path.\<close>

lemma upload_voice_temp_removed:
  assumes "tmp_fresh s"
  shows "fs_exists (files (snd (upload_voice E s filename file_content voice_name))) (Temp n sfx)
         \<longleftrightarrow> fs_exists (files s) (Temp n sfx)"
proof -
  have lt: "\<And>n sfx. fs_exists (files s) (Temp n sfx) \<Longrightarrow> n < tmp_count s"
    using assms unfolding tmp_fresh_iff by blast
  show ?thesis
    by (auto simp: upload_voice_def upload_body_def NamedTemporaryFile_def Let_def locate_def
          fs_exists_write fs_exists_unlink
          dest: lt split: prod.splits sum.splits option.splits if_splits)
qed

lemma generate_tts_response:
  assumes "generate_tts E s text voice_name exaggeration cfg_weight = (Inr v, s')"
  shows "v = FileResponse (Temp (tmp_count s) ''.wav'') \<and>
         fs_exists (files s') (Temp (tmp_count s) ''.wav'') \<and>
         tmp_count s' = Suc (tmp_count s) \<and>
         (\<forall>l. fs_exists (files s') l \<longleftrightarrow> l = Temp (tmp_count s) ''.wav'' \<or> fs_exists (files s) l)"
  using assms
  by (auto simp: generate_tts_def generate_body_def NamedTemporaryFile_def Let_def
        fs_exists_write split: prod.splits sum.splits option.splits if_splits)

text \<open>
  C4. The claim says that every temporary file of a request is removed on every exit
  path. \<open>upload_voice\<close> does so in its \<^verbatim>\<open>finally\<close> block. \<open>generate_tts\<close> creates its output
  file with \<^verbatim>\<open>delete=False\<close> and returns a \<^verbatim>\<open>FileResponse\<close> with \<^verbatim>\<open>background=None\<close>; no
  statement unlinks the file. After a successful generate request the output file, which
  did not exist before, exists, and it still exists after any sequence of later
  requests: these files accumulate.
\<close>

theorem generate_tts_output_file_kept:
  assumes "tmp_fresh s"
    and "generate_tts E s text voice_name exaggeration cfg_weight = (Inr (FileResponse l), s')"
  shows "\<not> fs_exists (files s) l \<and> fs_exists (files s') l \<and>
         (\<forall>rs. fs_exists (files (snd (serve E s' rs))) l)"
proof -
  note g = generate_tts_response [OF assms(2)]
  have l: "l = Temp (tmp_count s) ''.wav''" using g by simp
  have new: "\<not> fs_exists (files s) l"
    using assms(1) unfolding l tmp_fresh_iff by auto
  have ex: "fs_exists (files s') l" using g l by simp
  have "tmp_fresh s'"
    unfolding tmp_fresh_iff using g assms(1) by (auto simp: tmp_fresh_iff less_Suc_eq)
  then have "\<forall>rs. fs_exists (files (snd (serve E s' rs))) l"
    using ex unfolding l by (simp add: serve_keeps_temp)
  then show ?thesis using new ex by simp
qed

theorem generate_tts_output_file_kept_witness:
  "tmp_fresh ready_state \<and>
   generate_tts env0 ready_state ''hello'' None 0.2 0.8 =
     (Inr (FileResponse (Temp 0 ''.wav'')),
      ready_state\<lparr>files := [(Temp 0 ''.wav'', [82, 73, 70, 70])], tmp_count := 1,
                  events := [LoadAttempt ''cuda'', EngineGenerate ''hello'' None]\<rparr>) \<and>
   fs_exists
     (files (snd (serve env0
        (ready_state\<lparr>files := [(Temp 0 ''.wav'', [82, 73, 70, 70])], tmp_count := 1,
                  events := [LoadAttempt ''cuda'', EngineGenerate ''hello'' None]\<rparr>)
        [PostUploadVoice ''sample.wav'' [82, 73] ''narrator'', DeleteVoice ''narrator''])))
     (Temp 0 ''.wav'')"
proof -
  have a: "tmp_fresh ready_state" by (simp add: tmp_fresh_def ready_state_def)
  have b: "generate_tts env0 ready_state ''hello'' None 0.2 0.8 =
     (Inr (FileResponse (Temp 0 ''.wav'')),
      ready_state\<lparr>files := [(Temp 0 ''.wav'', [82, 73, 70, 70])], tmp_count := 1,
                  events := [LoadAttempt ''cuda'', EngineGenerate ''hello'' None]\<rparr>)"
    by (simp add: generate_tts_def generate_body_def NamedTemporaryFile_def ready_state_def
        env0_def Let_def)
  show ?thesis
    using generate_tts_output_file_kept [OF a b] a b by blast
qed

end
